theory Spec2Isabelle
  imports Complex_Main
begin

section \<open>JavaScript numbers\<close>

text \<open>
  The benchmark engine of \<^verbatim>\<open>src/lib/async-bench.ts\<close> computes with JavaScript numbers.
  A number is modelled as an exact real, or one of the three special values the
  source relies on: \<open>Infinity\<close>, \<open>-Infinity\<close> and \<open>NaN\<close>. Rounding, overflow,
  underflow and the sign of zero are not modelled: a finite operation gives the exact
  real result, and a zero divisor is taken as \<open>+0\<close>. The source computes on binary64
  numbers. A property of the scheduler or of equal samples below is therefore worded to
  hold there as well: it conditions on the value the code computes (a mean) where
  rounding could change it, and it leaves room for \<open>Infinity\<close> and \<open>NaN\<close> where a quotient
  can overflow, underflow or be 0/0. A statement written with a real sum or a real
  square root is about the exact values.
\<close>

datatype jsnum = Fin real | PInf | NInf | NaN

text \<open>Truthiness of a number: \<open>0\<close> and \<open>NaN\<close> are falsy, all else is truthy.\<close>

fun truthy :: "jsnum \<Rightarrow> bool" where
  "truthy (Fin r) = (r \<noteq> 0)"
| "truthy PInf = True"
| "truthy NInf = True"
| "truthy NaN = False"

text \<open>\<open>a || b\<close> on numbers.\<close>

definition js_or :: "jsnum \<Rightarrow> jsnum \<Rightarrow> jsnum" where
  "js_or a b = (if truthy a then a else b)"

text \<open>\<open>a || b\<close> where \<open>a\<close> is an optional property (\<open>undefined\<close> is falsy).\<close>

definition opt_or :: "jsnum option \<Rightarrow> jsnum \<Rightarrow> jsnum" where
  "opt_or a b = (case a of None \<Rightarrow> b | Some x \<Rightarrow> js_or x b)"

fun jneg :: "jsnum \<Rightarrow> jsnum" where
  "jneg (Fin r) = Fin (- r)"
| "jneg PInf = NInf"
| "jneg NInf = PInf"
| "jneg NaN = NaN"

fun jadd :: "jsnum \<Rightarrow> jsnum \<Rightarrow> jsnum" where
  "jadd NaN _ = NaN"
| "jadd _ NaN = NaN"
| "jadd (Fin a) (Fin b) = Fin (a + b)"
| "jadd PInf NInf = NaN"
| "jadd NInf PInf = NaN"
| "jadd PInf _ = PInf"
| "jadd _ PInf = PInf"
| "jadd NInf _ = NInf"
| "jadd _ NInf = NInf"

definition jsub :: "jsnum \<Rightarrow> jsnum \<Rightarrow> jsnum" where
  "jsub a b = jadd a (jneg b)"

fun jmul :: "jsnum \<Rightarrow> jsnum \<Rightarrow> jsnum" where
  "jmul NaN _ = NaN"
| "jmul _ NaN = NaN"
| "jmul (Fin a) (Fin b) = Fin (a * b)"
| "jmul PInf (Fin b) = (if b = 0 then NaN else if 0 < b then PInf else NInf)"
| "jmul NInf (Fin b) = (if b = 0 then NaN else if 0 < b then NInf else PInf)"
| "jmul (Fin a) PInf = (if a = 0 then NaN else if 0 < a then PInf else NInf)"
| "jmul (Fin a) NInf = (if a = 0 then NaN else if 0 < a then NInf else PInf)"
| "jmul PInf PInf = PInf"
| "jmul PInf NInf = NInf"
| "jmul NInf PInf = NInf"
| "jmul NInf NInf = PInf"

fun jdiv :: "jsnum \<Rightarrow> jsnum \<Rightarrow> jsnum" where
  "jdiv NaN _ = NaN"
| "jdiv _ NaN = NaN"
| "jdiv (Fin a) (Fin b) =
     (if b \<noteq> 0 then Fin (a / b)
      else if a = 0 then NaN else if 0 < a then PInf else NInf)"
| "jdiv (Fin a) PInf = Fin 0"
| "jdiv (Fin a) NInf = Fin 0"
| "jdiv PInf (Fin b) = (if 0 \<le> b then PInf else NInf)"
| "jdiv NInf (Fin b) = (if 0 \<le> b then NInf else PInf)"
| "jdiv PInf PInf = NaN"
| "jdiv PInf NInf = NaN"
| "jdiv NInf PInf = NaN"
| "jdiv NInf NInf = NaN"

text \<open>\<open>Math.sqrt\<close>.\<close>

fun jsqrt :: "jsnum \<Rightarrow> jsnum" where
  "jsqrt (Fin r) = (if r < 0 then NaN else Fin (sqrt r))"
| "jsqrt PInf = PInf"
| "jsqrt NInf = NaN"
| "jsqrt NaN = NaN"

text \<open>\<open>Math.pow(x, 2)\<close>: the square of \<open>x\<close>.\<close>

definition jpow2 :: "jsnum \<Rightarrow> jsnum" where
  "jpow2 x = jmul x x"

text \<open>\<open>a < b\<close> and \<open>a <= b\<close>: false as soon as one side is \<open>NaN\<close>.\<close>

fun jlt :: "jsnum \<Rightarrow> jsnum \<Rightarrow> bool" where
  "jlt NaN _ = False"
| "jlt _ NaN = False"
| "jlt (Fin a) (Fin b) = (a < b)"
| "jlt _ NInf = False"
| "jlt PInf _ = False"
| "jlt NInf _ = True"
| "jlt _ PInf = True"

fun jle :: "jsnum \<Rightarrow> jsnum \<Rightarrow> bool" where
  "jle NaN _ = False"
| "jle _ NaN = False"
| "jle (Fin a) (Fin b) = (a \<le> b)"
| "jle NInf _ = True"
| "jle _ PInf = True"
| "jle _ NInf = False"
| "jle PInf _ = False"

text \<open>\<open>Math.min(a, b)\<close>: \<open>NaN\<close> as soon as one argument is \<open>NaN\<close>.\<close>

fun jmin :: "jsnum \<Rightarrow> jsnum \<Rightarrow> jsnum" where
  "jmin NaN _ = NaN"
| "jmin _ NaN = NaN"
| "jmin a b = (if jle a b then a else b)"

text \<open>\<open>Math.round\<close>: the nearest integer, a tie going up.\<close>

fun jround :: "jsnum \<Rightarrow> jsnum" where
  "jround (Fin r) = Fin (of_int \<lfloor>r + 1 / 2\<rfloor>)"
| "jround x = x"

section \<open>The statistics estimator\<close>

text \<open>
  \<^verbatim>\<open>tTable\<close>: two-tailed critical values of Student's t for 95% confidence. The
  source keys the table by the decimal strings \<open>'1'\<close> to \<open>'30'\<close> and by
  \<open>'infinity'\<close>; it is only ever indexed by a number, whose property key is its
  decimal string, so the numeric entries are keyed by integers here and the
  \<open>'infinity'\<close> entry is a constant of its own.
\<close>

definition tTable :: "(int \<times> real) list" where
  "tTable =
    [(1, 12.706), (2, 4.303), (3, 3.182), (4, 2.776), (5, 2.571),
     (6, 2.447), (7, 2.365), (8, 2.306), (9, 2.262), (10, 2.228),
     (11, 2.201), (12, 2.179), (13, 2.16), (14, 2.145), (15, 2.131),
     (16, 2.12), (17, 2.11), (18, 2.101), (19, 2.093), (20, 2.086),
     (21, 2.08), (22, 2.074), (23, 2.069), (24, 2.064), (25, 2.06),
     (26, 2.056), (27, 2.052), (28, 2.048), (29, 2.045), (30, 2.042)]"

definition tTable_infinity :: jsnum where
  "tTable_infinity = Fin 1.96"

text \<open>
  \<^verbatim>\<open>tTable[k]\<close> for a number \<open>k\<close>: \<open>None\<close> is \<open>undefined\<close> (no such key). A number that
  is not an integer has a key that is not in the table.
\<close>

fun tTable_get :: "jsnum \<Rightarrow> jsnum option" where
  "tTable_get (Fin r) =
     (if r = of_int \<lfloor>r\<rfloor> then map_option Fin (map_of tTable \<lfloor>r\<rfloor>) else None)"
| "tTable_get _ = None"

definition getSum :: "jsnum list \<Rightarrow> jsnum" where
  "getSum arr = foldl (\<lambda>a b. jadd a b) (Fin 0) arr"

definition getMean :: "jsnum list \<Rightarrow> jsnum" where
  "getMean arr = jdiv (getSum arr) (Fin (real (length arr)))"

text \<open>
  \<^verbatim>\<open>getStddev\<close>. The \<open>reduce\<close> with no initial value starts from the first element;
  it runs on a non-empty array only, since the empty one has returned before.
\<close>

definition getStddev :: "jsnum list \<Rightarrow> jsnum" where
  "getStddev arr =
     (if length arr = 0 then Fin 0
      else
        let n = length arr;
            mean = getMean arr
        in (case map (\<lambda>x. jpow2 (jsub x mean)) arr of
              d # ds \<Rightarrow> jsqrt (jdiv (foldl (\<lambda>a b. jadd a b) d ds) (Fin (real n)))
            | [] \<Rightarrow> Fin 0))"

record Timings =
  sampleCount :: nat
  meanTime :: jsnum
  relativeMarginOfError :: jsnum

text \<open>The locals of \<^verbatim>\<open>getTimings\<close>, in the order the source computes them.\<close>

definition getTimings_sem :: "jsnum list \<Rightarrow> jsnum" where
  "getTimings_sem samples = jdiv (getStddev samples) (jsqrt (Fin (real (length samples))))"

definition getTimings_df :: "jsnum list \<Rightarrow> jsnum" where
  "getTimings_df samples = jsub (Fin (real (length samples))) (Fin 1)"

definition getTimings_critical :: "jsnum list \<Rightarrow> jsnum" where
  "getTimings_critical samples =
     opt_or (tTable_get (js_or (jround (getTimings_df samples)) (Fin 1))) tTable_infinity"

definition getTimings_moe :: "jsnum list \<Rightarrow> jsnum" where
  "getTimings_moe samples = jmul (getTimings_sem samples) (getTimings_critical samples)"

definition getTimings :: "jsnum list \<Rightarrow> Timings" where
  "getTimings samples =
     (let mean = getMean samples;
          moe = getTimings_moe samples;
          rme = js_or (jdiv moe mean) PInf
      in \<lparr> sampleCount = length samples, meanTime = mean, relativeMarginOfError = rme \<rparr>)"

section \<open>Configuration, state and results\<close>

text \<open>
  An error thrown during a run: the \<open>RangeError\<close> of \<^verbatim>\<open>Array(count)\<close> for an invalid
  length, or whatever the operation or a hook throws.
\<close>

datatype error = RangeError | Thrown string

text \<open>
  \<^verbatim>\<open>BenchmarkConfig\<close>. An optional property is an \<open>option\<close>, \<open>None\<close> being
  \<open>undefined\<close>. The operation \<^verbatim>\<open>fn\<close> is effectful: \<open>fn k\<close> is the outcome of its
  \<open>k\<close>-th invocation of the run (counted from 0), the duration it returns or the
  error it throws. A hook, when present, completes (\<open>None\<close>) or throws (\<open>Some e\<close>);
  \<^verbatim>\<open>before\<close> is given the iteration count of the cycle.
\<close>

record BenchmarkConfig =
  name :: string
  isSync :: "bool option"
  fn :: "nat \<Rightarrow> error + jsnum"
  before :: "(jsnum \<Rightarrow> error option) option"
  beforeAll :: "error option option"
  maxTime :: "jsnum option"
  initialCount :: "jsnum option"

record BenchmarkCycleDetails =
  name :: string
  index :: jsnum
  iterationCount :: jsnum
  elapsedTime :: jsnum
  setUpTime :: jsnum
  timingsSoFar :: Timings

record BenchmarkResult =
  cycles :: nat
  cycleDetails :: "BenchmarkCycleDetails list"
  meanTime :: jsnum
  relativeMarginOfError :: jsnum
  elapsedTime :: jsnum
  setUpTime :: jsnum
  iterationCount :: jsnum
  samples :: "jsnum list"

text \<open>
  \<^verbatim>\<open>BenchmarkState\<close>. The cycle counter starts at 0 and is only ever incremented, so
  it is a natural number; the other fields are numbers.
\<close>

record BenchmarkState =
  timings :: Timings
  cycles :: nat
  iterationCount :: jsnum
  elapsedTime :: jsnum
  elapsedNetTime :: jsnum
  elapsedTimeForInitialSetUp :: jsnum
  elapsedCycleGrossTime :: jsnum
  config :: BenchmarkConfig

definition TARGET_RELATIVE_MARGIN_OF_ERROR :: jsnum where
  "TARGET_RELATIVE_MARGIN_OF_ERROR = Fin 0.02"

definition DEFAULT_MAX_TIME :: jsnum where
  "DEFAULT_MAX_TIME = Fin 30"

definition INITIAL_ITERATION_COUNT :: jsnum where
  "INITIAL_ITERATION_COUNT = Fin 1"

definition TARGET_CYCLE_TIME :: jsnum where
  "TARGET_CYCLE_TIME = jdiv DEFAULT_MAX_TIME (Fin 10)"

definition INCLUDE_INITIAL_SETUP_IN_MAX_TIME :: bool where
  "INCLUDE_INITIAL_SETUP_IN_MAX_TIME = False"

section \<open>Merging results\<close>

text \<open>\<^verbatim>\<open>BenchmarkResult.add(...results)\<close>: every field is a left fold over the results.\<close>

definition add :: "BenchmarkResult list \<Rightarrow> BenchmarkResult" where
  "add results =
     (let samples = foldl (\<lambda>value r. value @ BenchmarkResult.samples r) [] results;
          timings = getTimings samples
      in \<lparr> BenchmarkResult.cycles =
             foldl (\<lambda>value r. value + BenchmarkResult.cycles r) 0 results,
           cycleDetails = foldl (\<lambda>value r. value @ cycleDetails r) [] results,
           meanTime = Timings.meanTime timings,
           relativeMarginOfError = Timings.relativeMarginOfError timings,
           elapsedTime =
             foldl (\<lambda>value r. jadd value (BenchmarkResult.elapsedTime r)) (Fin 0) results,
           setUpTime =
             foldl (\<lambda>value r. jadd value (BenchmarkResult.setUpTime r)) (Fin 0) results,
           iterationCount =
             foldl (\<lambda>value r. jadd value (BenchmarkResult.iterationCount r)) (Fin 0) results,
           samples = samples \<rparr>)"

section \<open>The adaptive cycle scheduler\<close>

definition nextIterationCount :: "BenchmarkState \<Rightarrow> jsnum" where
  "nextIterationCount state =
     (let maxTime' = opt_or (maxTime (config state)) DEFAULT_MAX_TIME;
          remainingTime0 = jsub maxTime' (BenchmarkState.elapsedTime state);
          remainingTime =
            (if \<not> INCLUDE_INITIAL_SETUP_IN_MAX_TIME
             then jadd remainingTime0 (elapsedTimeForInitialSetUp state)
             else remainingTime0)
      in
        if BenchmarkState.cycles state = 0
        then opt_or (initialCount (config state)) INITIAL_ITERATION_COUNT
        else if jle remainingTime (Fin 0) then Fin 0
        else if jlt (Timings.relativeMarginOfError (timings state))
                  TARGET_RELATIVE_MARGIN_OF_ERROR
        then Fin 0
        else
          let errorFactor =
                jmin (jadd (Timings.relativeMarginOfError (timings state)) (Fin 1)) (Fin 10);
              meanSetUpTime =
                jdiv (jsub (jsub (BenchmarkState.elapsedTime state)
                                 (elapsedCycleGrossTime state))
                           (elapsedTimeForInitialSetUp state))
                     (Fin (real (BenchmarkState.cycles state)))
          in
            if jlt remainingTime meanSetUpTime then Fin 0
            else
              let remainingNetTime = jsub remainingTime meanSetUpTime;
                  remainingNetTimeWithSafetyMargin = jdiv remainingNetTime errorFactor;
                  targetNetTime = jmin remainingNetTimeWithSafetyMargin TARGET_CYCLE_TIME;
                  grossMeanTimePerIteration =
                    jdiv (elapsedCycleGrossTime state) (BenchmarkState.iterationCount state)
              in jround (jdiv targetNetTime grossMeanTimePerIteration))"

text \<open>
  The locals of \<^verbatim>\<open>nextIterationCount\<close> as functions of the state, to state properties
  of them; \<open>nextIterationCount_locals\<close> below shows that the scheduler computes its
  result from exactly these.
\<close>

definition remainingTime :: "BenchmarkState \<Rightarrow> jsnum" where
  "remainingTime state =
     jadd (jsub (opt_or (maxTime (config state)) DEFAULT_MAX_TIME)
                (BenchmarkState.elapsedTime state))
          (elapsedTimeForInitialSetUp state)"

definition errorFactor :: "BenchmarkState \<Rightarrow> jsnum" where
  "errorFactor state =
     jmin (jadd (Timings.relativeMarginOfError (timings state)) (Fin 1)) (Fin 10)"

definition meanSetUpTime :: "BenchmarkState \<Rightarrow> jsnum" where
  "meanSetUpTime state =
     jdiv (jsub (jsub (BenchmarkState.elapsedTime state) (elapsedCycleGrossTime state))
                (elapsedTimeForInitialSetUp state))
          (Fin (real (BenchmarkState.cycles state)))"

definition remainingNetTime :: "BenchmarkState \<Rightarrow> jsnum" where
  "remainingNetTime state = jsub (remainingTime state) (meanSetUpTime state)"

definition targetNetTime :: "BenchmarkState \<Rightarrow> jsnum" where
  "targetNetTime state =
     jmin (jdiv (remainingNetTime state) (errorFactor state)) TARGET_CYCLE_TIME"

definition grossMeanTimePerIteration :: "BenchmarkState \<Rightarrow> jsnum" where
  "grossMeanTimePerIteration state =
     jdiv (elapsedCycleGrossTime state) (BenchmarkState.iterationCount state)"

text \<open>The scheduler goes on: it is past the first cycle and none of its three stops applies.\<close>

definition continues :: "BenchmarkState \<Rightarrow> bool" where
  "continues state \<longleftrightarrow>
     BenchmarkState.cycles state \<noteq> 0 \<and>
     \<not> jle (remainingTime state) (Fin 0) \<and>
     \<not> jlt (Timings.relativeMarginOfError (timings state)) TARGET_RELATIVE_MARGIN_OF_ERROR \<and>
     \<not> jlt (remainingTime state) (meanSetUpTime state)"

section \<open>The benchmark run\<close>

text \<open>
  The run reads the clock and invokes the operation; both are effects. The world
  counts the clock readings and the invocations made so far: the \<open>k\<close>-th reading of
  \<^verbatim>\<open>time()\<close> is \<open>clock k\<close> (seconds, a finite number), and the \<open>k\<close>-th invocation of the
  operation has the outcome \<open>fn cfg k\<close> for the configuration \<open>cfg\<close>. The run is the call
  \<^verbatim>\<open>benchmark(config)\<close>, with no callbacks: the second parameter is optional, and
  \<^verbatim>\<open>onCycleDone\<close> is only called when it is given.
\<close>

record world =
  ticks :: nat
  calls :: nat

definition time :: "(nat \<Rightarrow> real) \<Rightarrow> world \<Rightarrow> jsnum \<times> world" where
  "time clock w = (Fin (clock (ticks w)), w\<lparr> ticks := Suc (ticks w) \<rparr>)"

text \<open>\<^verbatim>\<open>if (config.before) { await config.before({ count }) }\<close>: the error thrown, if any.\<close>

definition run_before :: "BenchmarkConfig \<Rightarrow> jsnum \<Rightarrow> error option" where
  "run_before cfg count = (case before cfg of None \<Rightarrow> None | Some hook \<Rightarrow> hook count)"

text \<open>
  The loop \<^verbatim>\<open>for (let i = 0; i < count; i++) { netTime += await config.fn(); }\<close> of
  \<^verbatim>\<open>cycle\<close> and \<^verbatim>\<open>cycleSync\<close>, from \<open>i\<close> on; \<open>k\<close> counts the invocations of the run. It
  does not return (\<open>None\<close>) when \<open>count\<close> is \<open>Infinity\<close> and no invocation throws.
\<close>

partial_function (option) cycle_loop ::
  "(nat \<Rightarrow> error + jsnum) \<Rightarrow> jsnum \<Rightarrow> nat \<Rightarrow> nat \<Rightarrow> jsnum \<Rightarrow> (error + jsnum \<times> nat) option" where
  "cycle_loop f count i k netTime =
     (if jlt (Fin (real i)) count
      then (case f k of
              Inl e \<Rightarrow> Some (Inl e)
            | Inr d \<Rightarrow> cycle_loop f count (Suc i) (Suc k) (jadd netTime d))
      else Some (Inr (netTime, k)))"

text \<open>
  A cycle returns its samples and its net time, with the world after it; it throws
  (\<open>Inl\<close>) or does not return (\<open>None\<close>) otherwise.
\<close>

type_synonym cycle_outcome = "(error + (jsnum list \<times> jsnum) \<times> world) option"

definition cycle :: "BenchmarkConfig \<Rightarrow> jsnum \<Rightarrow> world \<Rightarrow> cycle_outcome" where
  "cycle cfg count w =
     (case run_before cfg count of
        Some e \<Rightarrow> Some (Inl e)
      | None \<Rightarrow>
          (case cycle_loop (fn cfg) count 0 (calls w) (Fin 0) of
             None \<Rightarrow> None
           | Some (Inl e) \<Rightarrow> Some (Inl e)
           | Some (Inr (netTime, k)) \<Rightarrow>
               Some (Inr (([jdiv netTime count], netTime), w\<lparr> calls := k \<rparr>))))"

definition cycleSync :: "BenchmarkConfig \<Rightarrow> jsnum \<Rightarrow> world \<Rightarrow> cycle_outcome" where
  "cycleSync cfg count w =
     (case run_before cfg count of
        Some e \<Rightarrow> Some (Inl e)
      | None \<Rightarrow>
          (case cycle_loop (fn cfg) count 0 (calls w) (Fin 0) of
             None \<Rightarrow> None
           | Some (Inl e) \<Rightarrow> Some (Inl e)
           | Some (Inr (netTime, k)) \<Rightarrow>
               Some (Inr (([jdiv netTime count], netTime), w\<lparr> calls := k \<rparr>))))"

text \<open>
  \<^verbatim>\<open>Array(count)\<close> throws a \<open>RangeError\<close> unless \<open>count\<close> is an integer from 0 to
  \<open>2^32 - 1\<close>; \<open>array_length\<close> is the length of the array it creates otherwise.
\<close>

fun array_length :: "jsnum \<Rightarrow> nat option" where
  "array_length (Fin r) =
     (if 0 \<le> r \<and> r < 2 ^ 32 \<and> r = of_int \<lfloor>r\<rfloor> then Some (nat \<lfloor>r\<rfloor>) else None)"
| "array_length _ = None"

text \<open>
  The loop of \<^verbatim>\<open>cycleDetailed\<close>, which runs once \<^verbatim>\<open>Array(count)\<close> has made an array of
  \<open>n\<close> slots, so its bound is the natural number \<open>n\<close>. At step \<open>i\<close> the slots before \<open>i\<close>
  are filled: the list \<open>ts\<close> holds them, and \<^verbatim>\<open>times[i] = duration\<close> extends it.
\<close>

function detailed_loop ::
  "(nat \<Rightarrow> error + jsnum) \<Rightarrow> nat \<Rightarrow> nat \<Rightarrow> nat \<Rightarrow> jsnum list \<Rightarrow> error + jsnum list \<times> nat" where
  "detailed_loop f n i k ts =
     (if i < n
      then (case f k of
              Inl e \<Rightarrow> Inl e
            | Inr duration \<Rightarrow> detailed_loop f n (Suc i) (Suc k) (ts @ [duration]))
      else Inr (ts, k))"
  by pat_completeness auto
termination
  by (relation "measure (\<lambda>(f, n, i, k, ts). n - i)") auto

declare detailed_loop.simps [simp del]

definition cycleDetailed :: "BenchmarkConfig \<Rightarrow> jsnum \<Rightarrow> world \<Rightarrow> cycle_outcome" where
  "cycleDetailed cfg count w =
     (case run_before cfg count of
        Some e \<Rightarrow> Some (Inl e)
      | None \<Rightarrow>
          (case array_length count of
             None \<Rightarrow> Some (Inl RangeError)
           | Some n \<Rightarrow>
               (case detailed_loop (fn cfg) n 0 (calls w) [] of
                  Inl e \<Rightarrow> Some (Inl e)
                | Inr (ts, k) \<Rightarrow>
                    Some (Inr ((ts, getSum ts), w\<lparr> calls := k \<rparr>)))))"

text \<open>The variables of the loop of \<^verbatim>\<open>benchmark\<close>, and the world.\<close>

record vars =
  samples :: "jsnum list"
  cycleDetails :: "BenchmarkCycleDetails list"
  state :: BenchmarkState
  world :: world

text \<open>
  One pass of the body of \<^verbatim>\<open>while (true)\<close>: it leaves the loop or ends with new
  variables. The local \<^verbatim>\<open>iterationCount\<close> of the source is \<open>count\<close> here.
\<close>

datatype step = Break | Next vars

definition cycleFn :: "BenchmarkConfig \<Rightarrow> jsnum \<Rightarrow> jsnum \<Rightarrow> world \<Rightarrow> cycle_outcome" where
  "cycleFn cfg count =
     (if isSync cfg = Some True then cycleSync cfg
      else if jlt (Fin 10000) count then cycle cfg
      else cycleDetailed cfg)"

definition benchmark_step ::
  "BenchmarkConfig \<Rightarrow> (nat \<Rightarrow> real) \<Rightarrow> jsnum \<Rightarrow> vars \<Rightarrow> (error + step) option" where
  "benchmark_step cfg clock startTime v =
     (let count = nextIterationCount (state v) in
      if \<not> truthy count then Some (Inr Break)
      else
        let (cycleStartTime, w1) = time clock (world v) in
        (case cycleFn cfg count count w1 of
           None \<Rightarrow> None
         | Some (Inl e) \<Rightarrow> Some (Inl e)
         | Some (Inr ((cycleTimes, netTime), w2)) \<Rightarrow>
             let (t2, w3) = time clock w2;
                 cycleGrossTime = jsub t2 cycleStartTime;
                 samples' = vars.samples v @ cycleTimes;
                 (t3, w4) = time clock w3;
                 state' =
                   \<lparr> timings = getTimings samples',
                     BenchmarkState.cycles = BenchmarkState.cycles (state v) + 1,
                     BenchmarkState.iterationCount =
                       jadd (BenchmarkState.iterationCount (state v)) count,
                     BenchmarkState.elapsedTime = jsub t3 startTime,
                     elapsedNetTime = jadd (elapsedNetTime (state v)) netTime,
                     elapsedTimeForInitialSetUp = elapsedTimeForInitialSetUp (state v),
                     elapsedCycleGrossTime =
                       jadd (elapsedCycleGrossTime (state v)) cycleGrossTime,
                     config = config (state v) \<rparr>;
                 cycleDetails' =
                   vars.cycleDetails v @
                   [\<lparr> BenchmarkCycleDetails.name = BenchmarkConfig.name cfg,
                      index = jsub (Fin (real (BenchmarkState.cycles state'))) (Fin 1),
                      BenchmarkCycleDetails.iterationCount = count,
                      BenchmarkCycleDetails.elapsedTime = BenchmarkState.elapsedTime state',
                      BenchmarkCycleDetails.setUpTime =
                        jsub (BenchmarkState.elapsedTime state') (elapsedNetTime state'),
                      timingsSoFar = timings state' \<rparr>]
             in Some (Inr (Next \<lparr> samples = samples', cycleDetails = cycleDetails',
                                  state = state', world = w4 \<rparr>))))"





section \<open>Reference definitions and example inputs\<close>

text \<open>
  The target net time as the specification words it, to compare with \<open>targetNetTime\<close>:
  capped at one tenth of the time budget of the configuration being run, where the
  source caps at the constant \<^verbatim>\<open>TARGET_CYCLE_TIME\<close>.
\<close>

definition targetNetTime_spec :: "BenchmarkState \<Rightarrow> jsnum" where
  "targetNetTime_spec st =
     jmin (jdiv (remainingNetTime st) (errorFactor st))
          (jdiv (opt_or (maxTime (config st)) DEFAULT_MAX_TIME) (Fin 10))"

text \<open>
  A configuration with defaults only, whose operation always reports a duration of one
  second, and the configuration of \<^verbatim>\<open>testQueryPerformance\<close> (a budget of 3 seconds, 10
  initial iterations) with the same operation.
\<close>

definition example_config :: BenchmarkConfig where
  "example_config =
     \<lparr> BenchmarkConfig.name = ''constant'', isSync = None, fn = (\<lambda>k. Inr (Fin 1)),
       before = None, beforeAll = None, maxTime = None, initialCount = None \<rparr>"

definition example_config_3s :: BenchmarkConfig where
  "example_config_3s = example_config \<lparr> maxTime := Some (Fin 3), initialCount := Some (Fin 10) \<rparr>"

text \<open>
  A state of \<open>example_config_3s\<close> after one cycle of 10 iterations that took one second,
  with a relative margin of error of 50%.
\<close>

definition example_state_3s :: BenchmarkState where
  "example_state_3s =
     \<lparr> timings = \<lparr> sampleCount = 10, Timings.meanTime = Fin (1 / 10),
                   Timings.relativeMarginOfError = Fin (1 / 2) \<rparr>,
       BenchmarkState.cycles = 1,
       BenchmarkState.iterationCount = Fin 10,
       BenchmarkState.elapsedTime = Fin 1,
       elapsedNetTime = Fin 1,
       elapsedTimeForInitialSetUp = Fin 0,
       elapsedCycleGrossTime = Fin 1,
       config = example_config_3s \<rparr>"

text \<open>
  A state of \<open>example_config\<close> after one cycle of one iteration, with the timings of the
  one sample; the clock has not advanced since the start, so every elapsed time is 0.
\<close>

definition example_state_no_time :: BenchmarkState where
  "example_state_no_time =
     \<lparr> timings = getTimings [Fin 1],
       BenchmarkState.cycles = 1,
       BenchmarkState.iterationCount = Fin 1,
       BenchmarkState.elapsedTime = Fin 0,
       elapsedNetTime = Fin 1,
       elapsedTimeForInitialSetUp = Fin 0,
       elapsedCycleGrossTime = Fin 0,
       config = example_config \<rparr>"

text \<open>The state a run of \<open>cfg\<close> starts from, when the one-time setup took \<open>s\<close> seconds.\<close>

definition initial_state :: "BenchmarkConfig \<Rightarrow> real \<Rightarrow> BenchmarkState" where
  "initial_state cfg s =
     \<lparr> timings = getTimings [],
       BenchmarkState.cycles = 0,
       BenchmarkState.iterationCount = Fin 0,
       BenchmarkState.elapsedTime = Fin 0,
       elapsedNetTime = Fin 0,
       elapsedTimeForInitialSetUp = Fin s,
       elapsedCycleGrossTime = Fin 0,
       config = cfg \<rparr>"

text \<open>
  The configuration \<open>example_config\<close> with 2 initial iterations, and a state of it after
  one cycle of 2 iterations of one second each, with the timings of the two samples.
\<close>

definition example_config_2 :: BenchmarkConfig where
  "example_config_2 = example_config \<lparr> initialCount := Some (Fin 2) \<rparr>"




text \<open>
  Clocks, by the index of the reading. The run reads the clock at its start, after the
  one-time setup, and three times in each cycle: before it, after it, and for the
  elapsed time. In \<open>example_clock_constant\<close> an iteration takes one second and nothing
  else takes time, for a first cycle of 2 and a second cycle of 3 iterations. In
  \<open>example_clock_setup\<close> the one-time setup takes 100 seconds and the first cycle one
  second.
\<close>

definition example_clock_constant :: "nat \<Rightarrow> real" where
  "example_clock_constant k = (if k < 3 then 0 else if k < 6 then 2 else 5)"


section \<open>Properties of the estimator\<close>

lemma jadd_zero_left: "jadd (Fin 0) a = a"
  by (cases a) simp_all

lemma foldl_jadd_Fin: "foldl (\<lambda>a b. jadd a b) (Fin a) (map Fin xs) = Fin (a + sum_list xs)"
  by (induction xs arbitrary: a) (simp_all add: add.assoc)

lemma getSum_Fin: "getSum (map Fin xs) = Fin (sum_list xs)"
  by (simp add: getSum_def foldl_jadd_Fin)

lemma getMean_Fin: "xs \<noteq> [] \<Longrightarrow> getMean (map Fin xs) = Fin (sum_list xs / real (length xs))"
  by (simp add: getMean_def getSum_Fin)

lemma foldl_jadd_head: "foldl (\<lambda>a b. jadd a b) d ds = getSum (d # ds)"
  by (simp add: getSum_def jadd_zero_left)

lemma getStddev_general:
  "arr \<noteq> [] \<Longrightarrow> getStddev arr =
     jsqrt (jdiv (getSum (map (\<lambda>x. jpow2 (jsub x (getMean arr))) arr)) (Fin (real (length arr))))"
  by (cases arr) (simp_all add: getStddev_def Let_def foldl_jadd_head)

lemma getStddev_Fin:
  assumes "xs \<noteq> []"
  shows "getStddev (map Fin xs) =
     Fin (sqrt ((\<Sum>x\<leftarrow>xs. (x - sum_list xs / real (length xs))\<^sup>2) / real (length xs)))"
proof -
  let ?m = "sum_list xs / real (length xs)"
  have m: "getMean (map Fin xs) = Fin ?m" using assms by (rule getMean_Fin)
  have "map (\<lambda>x. jpow2 (jsub x (Fin ?m))) (map Fin xs) = map Fin (map (\<lambda>x. (x - ?m)\<^sup>2) xs)"
    by (simp add: jpow2_def jsub_def power2_eq_square)
  moreover have "0 \<le> (\<Sum>x\<leftarrow>xs. (x - ?m)\<^sup>2) / real (length xs)"
    by (intro divide_nonneg_nonneg sum_list_nonneg) auto
  ultimately show ?thesis using assms
    by (simp add: getStddev_general m getSum_Fin del: map_map)
qed

text \<open>
  C9. For a non-empty sample sequence of \<open>n\<close> samples, \<^verbatim>\<open>getStddev\<close> is the population
  formula: the square root of the sum of the squared deviations from the mean,
  divided by \<open>n\<close> (not by \<open>n - 1\<close>). The first half states it with the operations of
  the source, for any numbers; the second half with the real sum, for finite samples.
\<close>

theorem getStddev_population:
  assumes "arr \<noteq> []"
  shows "getStddev arr =
           jsqrt (jdiv (getSum (map (\<lambda>x. jpow2 (jsub x (getMean arr))) arr))
                       (Fin (real (length arr)))) \<and>
         (\<forall>xs. arr = map Fin xs \<longrightarrow>
            getStddev arr =
              Fin (sqrt ((\<Sum>x\<leftarrow>xs. (x - sum_list xs / real (length xs))\<^sup>2) / real (length xs))))"
proof (intro conjI allI impI)
  show "getStddev arr =
          jsqrt (jdiv (getSum (map (\<lambda>x. jpow2 (jsub x (getMean arr))) arr))
                      (Fin (real (length arr))))"
    using assms by (rule getStddev_general)
next
  fix xs :: "real list"
  assume "arr = map Fin xs"
  with assms have "xs \<noteq> []" by auto
  then show "getStddev arr =
      Fin (sqrt ((\<Sum>x\<leftarrow>xs. (x - sum_list xs / real (length xs))\<^sup>2) / real (length xs)))"
    unfolding \<open>arr = map Fin xs\<close> by (rule getStddev_Fin)
qed

text \<open>The samples 1 and 3 have mean 2 and population standard deviation 1.\<close>

theorem getStddev_population_witness:
  "[Fin 1, Fin 3] \<noteq> [] \<and> getStddev [Fin 1, Fin 3] = Fin 1"
proof -
  have ne: "[Fin 1, Fin 3] \<noteq> []" by simp
  show ?thesis
    using getStddev_population [OF ne, THEN conjunct2, THEN spec, of "[1, 3]"]
    by (simp add: power2_eq_square)
qed

section \<open>Properties of merging\<close>

text \<open>
  C7. \<^verbatim>\<open>BenchmarkResult.add\<close> of two results: the samples and the cycle details are
  the concatenations, the cycles, iteration count, elapsed time and set-up time are
  the sums, and the mean time and the relative margin of error are those of
  \<^verbatim>\<open>getTimings\<close> on the concatenated samples.
\<close>

theorem add_two:
  "add [a, b] =
     \<lparr> BenchmarkResult.cycles = BenchmarkResult.cycles a + BenchmarkResult.cycles b,
       BenchmarkResult.cycleDetails =
         BenchmarkResult.cycleDetails a @ BenchmarkResult.cycleDetails b,
       BenchmarkResult.meanTime =
         Timings.meanTime (getTimings (BenchmarkResult.samples a @ BenchmarkResult.samples b)),
       BenchmarkResult.relativeMarginOfError =
         Timings.relativeMarginOfError
           (getTimings (BenchmarkResult.samples a @ BenchmarkResult.samples b)),
       BenchmarkResult.elapsedTime =
         jadd (BenchmarkResult.elapsedTime a) (BenchmarkResult.elapsedTime b),
       BenchmarkResult.setUpTime = jadd (BenchmarkResult.setUpTime a) (BenchmarkResult.setUpTime b),
       BenchmarkResult.iterationCount =
         jadd (BenchmarkResult.iterationCount a) (BenchmarkResult.iterationCount b),
       BenchmarkResult.samples = BenchmarkResult.samples a @ BenchmarkResult.samples b \<rparr>"
  by (simp add: add_def Let_def jadd_zero_left)

text \<open>Two runs of one cycle each, with the samples 1 and 3, merge into a run of mean 2.\<close>

theorem add_two_witness:
  "BenchmarkResult.samples
     (add [\<lparr> BenchmarkResult.cycles = 1, cycleDetails = [], meanTime = Fin 1,
              relativeMarginOfError = PInf, elapsedTime = Fin 2, setUpTime = Fin 1,
              iterationCount = Fin 1, samples = [Fin 1] \<rparr>,
           \<lparr> BenchmarkResult.cycles = 1, cycleDetails = [], meanTime = Fin 3,
              relativeMarginOfError = PInf, elapsedTime = Fin 4, setUpTime = Fin 1,
              iterationCount = Fin 1, samples = [Fin 3] \<rparr>]) = [Fin 1, Fin 3] \<and>
   BenchmarkResult.meanTime
     (add [\<lparr> BenchmarkResult.cycles = 1, cycleDetails = [], meanTime = Fin 1,
              relativeMarginOfError = PInf, elapsedTime = Fin 2, setUpTime = Fin 1,
              iterationCount = Fin 1, samples = [Fin 1] \<rparr>,
           \<lparr> BenchmarkResult.cycles = 1, cycleDetails = [], meanTime = Fin 3,
              relativeMarginOfError = PInf, elapsedTime = Fin 4, setUpTime = Fin 1,
              iterationCount = Fin 1, samples = [Fin 3] \<rparr>]) = Fin 2 \<and>
   BenchmarkResult.elapsedTime
     (add [\<lparr> BenchmarkResult.cycles = 1, cycleDetails = [], meanTime = Fin 1,
              relativeMarginOfError = PInf, elapsedTime = Fin 2, setUpTime = Fin 1,
              iterationCount = Fin 1, samples = [Fin 1] \<rparr>,
           \<lparr> BenchmarkResult.cycles = 1, cycleDetails = [], meanTime = Fin 3,
              relativeMarginOfError = PInf, elapsedTime = Fin 4, setUpTime = Fin 1,
              iterationCount = Fin 1, samples = [Fin 3] \<rparr>]) = Fin 6"
  by (simp add: add_two getTimings_def Let_def getMean_def getSum_def)

lemma getTimings_df_length: "getTimings_df ss = Fin (real_of_int (int (length ss) - 1))"
  by (simp add: getTimings_df_def jsub_def)

lemma jround_of_int: "jround (Fin (real_of_int k)) = Fin (real_of_int k)"
proof -
  have "\<lfloor>real_of_int k + 1 / 2\<rfloor> = k" by linarith
  then show ?thesis by simp
qed

lemma tTable_get_of_int: "tTable_get (Fin (real_of_int k)) = map_option Fin (map_of tTable k)"
  by simp

lemma getTimings_critical_length:
  "getTimings_critical ss =
     opt_or (map_option Fin (map_of tTable
               (if int (length ss) - 1 = 0 then 1 else int (length ss) - 1)))
            tTable_infinity"
proof (cases "int (length ss) - 1 = 0")
  case True
  have "tTable_get (Fin 1) = map_option Fin (map_of tTable 1)"
    using tTable_get_of_int [of 1] by simp
  with True show ?thesis
    by (simp add: getTimings_critical_def getTimings_df_length jround_of_int js_or_def
        del: tTable_get.simps)
next
  case False
  then show ?thesis
    by (simp add: getTimings_critical_def getTimings_df_length jround_of_int js_or_def
        tTable_get_of_int del: tTable_get.simps of_int_diff)
qed

lemma map_of_tTable_pos: "map_of tTable k = Some v \<Longrightarrow> 0 < v"
  by (auto simp: tTable_def split: if_splits)

lemma map_of_tTable_none: "30 < k \<or> k < 1 \<Longrightarrow> map_of tTable k = None"
  by (auto simp: tTable_def)

lemma getTimings_critical_pos: "\<exists>c. 0 < c \<and> getTimings_critical ss = Fin c"
proof (cases "map_of tTable (if int (length ss) - 1 = 0 then 1 else int (length ss) - 1)")
  case None
  then show ?thesis
    by (intro exI [of _ "1.96"]) (simp add: getTimings_critical_length opt_or_def tTable_infinity_def)
next
  case (Some v)
  then have "0 < v" by (rule map_of_tTable_pos)
  with Some show ?thesis
    by (simp add: getTimings_critical_length opt_or_def js_or_def)
qed

text \<open>
  C4. The critical value \<^verbatim>\<open>getTimings\<close> uses: for exactly 5 samples (4 degrees of
  freedom) it is 2.776; for more than 31 samples (more than 30 degrees of freedom,
  outside the table) it is 1.96; for 31 samples (30 degrees of freedom) it is the
  last entry of the table, 2.042; for one sample (0 degrees of freedom) it is the
  entry 12.706 of 1 degree of freedom; and for no sample (-1 degrees of freedom,
  which is truthy and not a key) it is 1.96.
\<close>

theorem getTimings_critical_cases:
  "(length ss = 5 \<longrightarrow> getTimings_critical ss = Fin 2.776) \<and>
   (31 < length ss \<longrightarrow> getTimings_critical ss = Fin 1.96) \<and>
   (length ss = 31 \<longrightarrow> getTimings_critical ss = Fin 2.042) \<and>
   (length ss = 1 \<longrightarrow> getTimings_critical ss = Fin 12.706) \<and>
   (length ss = 0 \<longrightarrow> getTimings_critical ss = Fin 1.96)"
proof (intro conjI impI)
  assume "length ss = 5"
  then show "getTimings_critical ss = Fin 2.776"
    by (simp add: getTimings_critical_length tTable_def opt_or_def js_or_def)
next
  assume "31 < length ss"
  then have "map_of tTable (int (length ss) - 1) = None"
    by (intro map_of_tTable_none) simp
  with \<open>31 < length ss\<close> show "getTimings_critical ss = Fin 1.96"
    by (simp add: getTimings_critical_length opt_or_def tTable_infinity_def)
next
  assume "length ss = 31"
  then show "getTimings_critical ss = Fin 2.042"
    by (simp add: getTimings_critical_length tTable_def opt_or_def js_or_def)
next
  assume "length ss = 1"
  then show "getTimings_critical ss = Fin 12.706"
    by (simp add: getTimings_critical_length tTable_def opt_or_def js_or_def)
next
  assume "length ss = 0"
  then show "getTimings_critical ss = Fin 1.96"
    by (simp add: getTimings_critical_length map_of_tTable_none opt_or_def tTable_infinity_def)
qed

theorem getTimings_critical_cases_witness:
  "getTimings_critical (replicate 5 (Fin 1)) = Fin 2.776 \<and>
   getTimings_critical (replicate 40 (Fin 1)) = Fin 1.96 \<and>
   getTimings_critical [Fin 1] = Fin 12.706 \<and>
   getTimings_critical [] = Fin 1.96"
  using getTimings_critical_cases [of "replicate 5 (Fin 1)"]
    getTimings_critical_cases [of "replicate 40 (Fin 1)"]
    getTimings_critical_cases [of "[Fin 1]"]
    getTimings_critical_cases [of "[]"]
  by simp

text \<open>
  With 31 samples, which are more than 30, the critical value is 2.042 and not 1.96;
  with no sample the degrees of freedom are -1, at most 0, and the critical value is
  1.96 and not 12.706.
\<close>

theorem getTimings_critical_counterexample:
  "30 < length (replicate 31 (Fin 1)) \<and>
   getTimings_critical (replicate 31 (Fin 1)) = Fin 2.042 \<and>
   getTimings_critical (replicate 31 (Fin 1)) \<noteq> Fin 1.96 \<and>
   getTimings_df [] = Fin (- 1) \<and>
   getTimings_critical [] = Fin 1.96 \<and>
   getTimings_critical [] \<noteq> Fin 12.706"
  by (simp add: getTimings_critical_length getTimings_df_length tTable_def opt_or_def js_or_def
      tTable_infinity_def)

lemma jsqrt_not_negative: "\<not> jlt (jsqrt x) (Fin 0)"
  by (cases x) simp_all

lemma getStddev_not_negative: "\<not> jlt (getStddev arr) (Fin 0)"
  by (cases arr) (simp_all add: getStddev_def Let_def jsqrt_not_negative del: jsqrt.simps)

lemma jdiv_not_negative: "\<not> jlt a (Fin 0) \<Longrightarrow> 0 \<le> b \<Longrightarrow> \<not> jlt (jdiv a (Fin b)) (Fin 0)"
  by (cases a) (auto simp: divide_less_0_iff)

lemma jmul_not_negative: "\<not> jlt a (Fin 0) \<Longrightarrow> 0 < c \<Longrightarrow> \<not> jlt (jmul a (Fin c)) (Fin 0)"
  by (cases a) (auto simp: mult_less_0_iff)

lemma getTimings_sem_not_negative: "\<not> jlt (getTimings_sem ss) (Fin 0)"
  unfolding getTimings_sem_def by (simp add: jdiv_not_negative getStddev_not_negative)

lemma getTimings_moe_not_negative: "\<not> jlt (getTimings_moe ss) (Fin 0)"
proof -
  obtain c where "0 < c" "getTimings_critical ss = Fin c"
    using getTimings_critical_pos by blast
  then show ?thesis
    unfolding getTimings_moe_def by (simp add: jmul_not_negative getTimings_sem_not_negative)
qed

lemma relativeMarginOfError_getTimings:
  "Timings.relativeMarginOfError (getTimings ss) =
     js_or (jdiv (getTimings_moe ss) (getMean ss)) PInf"
  by (simp add: getTimings_def Let_def)

lemma js_or_zero_mean: "\<not> jlt moe (Fin 0) \<Longrightarrow> js_or (jdiv moe (Fin 0)) PInf = PInf"
  by (cases moe) (simp_all add: js_or_def)

lemma js_or_zero_moe: "js_or (jdiv (Fin 0) mean) PInf = PInf"
  by (cases mean) (simp_all add: js_or_def)

lemma jdiv_NaN_right: "jdiv a NaN = NaN"
  by (cases a) simp_all

lemma getMean_Nil: "getMean [] = NaN"
  by (simp add: getMean_def getSum_def)

lemma getStddev_single: "getStddev [x] = Fin 0 \<or> getStddev [x] = NaN"
  by (cases x) (simp_all add: getStddev_def getMean_def getSum_def jpow2_def jsub_def)

lemma getTimings_moe_single: "getTimings_moe [x] = Fin 0 \<or> getTimings_moe [x] = NaN"
proof -
  obtain c where c: "getTimings_critical [x] = Fin c"
    using getTimings_critical_pos by blast
  from getStddev_single [of x] show ?thesis
    by (auto simp: getTimings_moe_def getTimings_sem_def c)
qed

lemma js_or_NaN: "js_or NaN PInf = PInf"
  by (simp add: js_or_def)

text \<open>
  C3. The timings \<^verbatim>\<open>getTimings\<close> returns: the mean time is the mean of the samples;
  the relative margin of error is the margin of error divided by the mean time
  whenever that quotient is truthy (neither 0 nor \<open>NaN\<close>), and \<open>Infinity\<close> otherwise. It
  is \<open>Infinity\<close>, a value and not an error, when the mean time is zero, when there is
  no sample, when there is one sample, and also whenever the margin of error is zero.
\<close>

theorem getTimings_relativeMarginOfError:
  "Timings.meanTime (getTimings ss) = getMean ss \<and>
   Timings.relativeMarginOfError (getTimings ss) =
     (if truthy (jdiv (getTimings_moe ss) (getMean ss))
      then jdiv (getTimings_moe ss) (getMean ss) else PInf) \<and>
   (getMean ss = Fin 0 \<longrightarrow> Timings.relativeMarginOfError (getTimings ss) = PInf) \<and>
   (ss = [] \<longrightarrow> Timings.relativeMarginOfError (getTimings ss) = PInf) \<and>
   (length ss = 1 \<longrightarrow> Timings.relativeMarginOfError (getTimings ss) = PInf) \<and>
   (getTimings_moe ss = Fin 0 \<longrightarrow> Timings.relativeMarginOfError (getTimings ss) = PInf)"
proof (intro conjI impI)
  show "Timings.meanTime (getTimings ss) = getMean ss"
    by (simp add: getTimings_def Let_def)
next
  show "Timings.relativeMarginOfError (getTimings ss) =
     (if truthy (jdiv (getTimings_moe ss) (getMean ss))
      then jdiv (getTimings_moe ss) (getMean ss) else PInf)"
    by (simp add: relativeMarginOfError_getTimings js_or_def)
next
  assume "getMean ss = Fin 0"
  then show "Timings.relativeMarginOfError (getTimings ss) = PInf"
    by (simp add: relativeMarginOfError_getTimings js_or_zero_mean getTimings_moe_not_negative)
next
  assume "ss = []"
  then show "Timings.relativeMarginOfError (getTimings ss) = PInf"
    by (simp add: relativeMarginOfError_getTimings getMean_Nil jdiv_NaN_right js_or_NaN)
next
  assume "length ss = 1"
  then obtain x where "ss = [x]"
    by (cases ss) auto
  from getTimings_moe_single [of x]
  have "js_or (jdiv (getTimings_moe [x]) (getMean [x])) PInf = PInf"
    by (auto simp: js_or_zero_moe js_or_NaN)
  with \<open>ss = [x]\<close> show "Timings.relativeMarginOfError (getTimings ss) = PInf"
    by (simp add: relativeMarginOfError_getTimings)
next
  assume "getTimings_moe ss = Fin 0"
  then show "Timings.relativeMarginOfError (getTimings ss) = PInf"
    by (simp add: relativeMarginOfError_getTimings js_or_zero_moe)
qed

lemma getStddev_1_3: "getStddev [Fin 1, Fin 3] = Fin 1"
  using getStddev_Fin [of "[1, 3]"] by (simp add: power2_eq_square)

lemma getMean_1_3: "getMean [Fin 1, Fin 3] = Fin 2"
  by (simp add: getMean_def getSum_def)

lemma getTimings_critical_two: "getTimings_critical [a, b] = Fin 12.706"
  by (simp add: getTimings_critical_length tTable_def opt_or_def js_or_def)

lemma getTimings_moe_1_3: "getTimings_moe [Fin 1, Fin 3] = Fin (12.706 / sqrt 2)"
  by (simp add: getTimings_moe_def getTimings_sem_def getStddev_1_3 getTimings_critical_two)

text \<open>
  The samples 1 and 3 have a truthy quotient, which is returned; the samples -1 and 1
  have mean zero.
\<close>

theorem getTimings_relativeMarginOfError_witness:
  "Timings.relativeMarginOfError (getTimings [Fin 1, Fin 3]) = Fin (6.353 / sqrt 2) \<and>
   Timings.relativeMarginOfError (getTimings [Fin (- 1), Fin 1]) = PInf \<and>
   Timings.relativeMarginOfError (getTimings []) = PInf \<and>
   Timings.relativeMarginOfError (getTimings [Fin 5]) = PInf"
proof (intro conjI)
  show "Timings.relativeMarginOfError (getTimings [Fin 1, Fin 3]) = Fin (6.353 / sqrt 2)"
    using getTimings_relativeMarginOfError [of "[Fin 1, Fin 3]"]
    by (simp add: getTimings_moe_1_3 getMean_1_3)
next
  have "getMean [Fin (- 1), Fin 1] = Fin 0"
    by (simp add: getMean_def getSum_def)
  then show "Timings.relativeMarginOfError (getTimings [Fin (- 1), Fin 1]) = PInf"
    using getTimings_relativeMarginOfError [of "[Fin (- 1), Fin 1]"] by blast
next
  show "Timings.relativeMarginOfError (getTimings []) = PInf"
    using getTimings_relativeMarginOfError [of "[]"] by blast
next
  have "length [Fin 5] = 1" by simp
  then show "Timings.relativeMarginOfError (getTimings [Fin 5]) = PInf"
    using getTimings_relativeMarginOfError [of "[Fin 5]"] by blast
qed

lemma getStddev_1_1: "getStddev [Fin 1, Fin 1] = Fin 0"
  using getStddev_Fin [of "[1, 1]"] by simp

text \<open>
  Two samples equal to 1: the mean time is 1, not zero, and the margin of error
  divided by the mean time is 0, yet the relative margin of error is \<open>Infinity\<close>.
\<close>

theorem getTimings_relativeMarginOfError_counterexample:
  "getMean [Fin 1, Fin 1] = Fin 1 \<and>
   jdiv (getTimings_moe [Fin 1, Fin 1]) (getMean [Fin 1, Fin 1]) = Fin 0 \<and>
   Timings.relativeMarginOfError (getTimings [Fin 1, Fin 1]) = PInf"
proof -
  have mean: "getMean [Fin 1, Fin 1] = Fin 1"
    by (simp add: getMean_def getSum_def)
  have moe: "getTimings_moe [Fin 1, Fin 1] = Fin 0"
    by (simp add: getTimings_moe_def getTimings_sem_def getStddev_1_1 getTimings_critical_two)
  show ?thesis
    by (simp add: relativeMarginOfError_getTimings mean moe js_or_def)
qed

section \<open>Properties of the scheduler\<close>


lemma nextIterationCount_locals:
  "nextIterationCount st =
     (if BenchmarkState.cycles st = 0
      then opt_or (initialCount (config st)) INITIAL_ITERATION_COUNT
      else if jle (remainingTime st) (Fin 0) then Fin 0
      else if jlt (Timings.relativeMarginOfError (timings st)) TARGET_RELATIVE_MARGIN_OF_ERROR
      then Fin 0
      else if jlt (remainingTime st) (meanSetUpTime st) then Fin 0
      else jround (jdiv (targetNetTime st) (grossMeanTimePerIteration st)))"
  by (simp add: nextIterationCount_def Let_def INCLUDE_INITIAL_SETUP_IN_MAX_TIME_def
      remainingTime_def meanSetUpTime_def targetNetTime_def grossMeanTimePerIteration_def
      remainingNetTime_def errorFactor_def)

lemma nextIterationCount_continues:
  "continues st \<Longrightarrow>
     nextIterationCount st = jround (jdiv (targetNetTime st) (grossMeanTimePerIteration st))"
  by (simp add: nextIterationCount_locals continues_def)

lemma TARGET_CYCLE_TIME_eq: "TARGET_CYCLE_TIME = Fin 3"
  by (simp add: TARGET_CYCLE_TIME_def DEFAULT_MAX_TIME_def)

lemma jsub_not_negative: "\<not> jlt a b \<Longrightarrow> \<not> jlt (jsub a b) (Fin 0)"
  by (cases a; cases b) (simp_all add: jsub_def)

lemma errorFactor_cases:
  assumes "\<not> jlt rme TARGET_RELATIVE_MARGIN_OF_ERROR"
  shows "jmin (jadd rme (Fin 1)) (Fin 10) = NaN \<or>
         (\<exists>f. jmin (jadd rme (Fin 1)) (Fin 10) = Fin f \<and> 1 \<le> f)"
  using assms by (cases rme) (auto simp: TARGET_RELATIVE_MARGIN_OF_ERROR_def)

lemma jmin_3_not_negative:
  "\<not> jlt a (Fin 0) \<Longrightarrow> jmin a (Fin 3) = NaN \<or> (\<exists>t. jmin a (Fin 3) = Fin t \<and> 0 \<le> t)"
  by (cases a) auto

lemma targetNetTime_not_negative:
  assumes c: "continues st"
  shows "targetNetTime st = NaN \<or> (\<exists>t. targetNetTime st = Fin t \<and> 0 \<le> t)"
proof -
  from c have p: "\<not> jlt (Timings.relativeMarginOfError (timings st))
        TARGET_RELATIVE_MARGIN_OF_ERROR"
    and ms: "\<not> jlt (remainingTime st) (meanSetUpTime st)"
    by (simp_all add: continues_def)
  have n: "\<not> jlt (remainingNetTime st) (Fin 0)"
    unfolding remainingNetTime_def using ms by (rule jsub_not_negative)
  have "\<not> jlt (jdiv (remainingNetTime st) (errorFactor st)) (Fin 0)"
  proof -
    from errorFactor_cases [OF p]
    consider "errorFactor st = NaN" | f where "errorFactor st = Fin f" "1 \<le> f"
      by (auto simp: errorFactor_def)
    then show ?thesis
    proof cases
      case 1
      then show ?thesis by (simp add: jdiv_NaN_right)
    next
      case 2
      with n show ?thesis by (simp add: jdiv_not_negative)
    qed
  qed
  then show ?thesis
    unfolding targetNetTime_def TARGET_CYCLE_TIME_eq by (rule jmin_3_not_negative)
qed


text \<open>
  C5. On the first call (no cycle done yet) \<^verbatim>\<open>nextIterationCount\<close> returns the
  configured initial count when it is truthy, whatever its sign, and 1 when it is
  absent, 0 or \<open>NaN\<close>, regardless of the time budget. Past the first cycle, for a state
  with a positive gross cycle time and a non-negative iteration count, it never returns
  a negative number or a fraction: the result is a non-negative integer, \<open>Infinity\<close> or
  \<open>NaN\<close>. The last two are what a quotient of the scheduler gives when it overflows,
  divides by a zero or is 0/0: on exact reals with a positive gross cycle time only
  \<open>NaN\<close> can arise (from an elapsed time that is not finite), and in binary64 the gross
  mean time per iteration can underflow to zero. The relative margin of error that
  \<^verbatim>\<open>getTimings\<close> computes is never \<open>NaN\<close>.
\<close>

theorem nextIterationCount_first_and_sign:
  "(BenchmarkState.cycles st = 0 \<longrightarrow>
      nextIterationCount st = opt_or (initialCount (config st)) (Fin 1)) \<and>
   (BenchmarkState.cycles st = 0 \<and> initialCount (config st) = None \<longrightarrow>
      nextIterationCount st = Fin 1) \<and>
   (\<forall>c. BenchmarkState.cycles st = 0 \<and> initialCount (config st) = Some c \<and> truthy c \<longrightarrow>
      nextIterationCount st = c) \<and>
   (BenchmarkState.cycles st \<noteq> 0 \<and>
    (\<exists>g. elapsedCycleGrossTime st = Fin g \<and> 0 < g) \<and>
    (\<exists>i. BenchmarkState.iterationCount st = Fin i \<and> 0 \<le> i) \<longrightarrow>
      nextIterationCount st = NaN \<or> nextIterationCount st = PInf \<or>
      (\<exists>k. 0 \<le> k \<and> nextIterationCount st = Fin (real_of_int k))) \<and>
   Timings.relativeMarginOfError (getTimings ss) \<noteq> NaN"
proof (intro conjI impI allI)
  show "Timings.relativeMarginOfError (getTimings ss) \<noteq> NaN"
    by (cases "jdiv (getTimings_moe ss) (getMean ss)")
      (simp_all add: relativeMarginOfError_getTimings js_or_def)
next
  assume "BenchmarkState.cycles st = 0"
  then show "nextIterationCount st = opt_or (initialCount (config st)) (Fin 1)"
    by (simp add: nextIterationCount_locals INITIAL_ITERATION_COUNT_def)
next
  assume "BenchmarkState.cycles st = 0 \<and> initialCount (config st) = None"
  then show "nextIterationCount st = Fin 1"
    by (simp add: nextIterationCount_locals INITIAL_ITERATION_COUNT_def opt_or_def)
next
  fix c
  assume "BenchmarkState.cycles st = 0 \<and> initialCount (config st) = Some c \<and> truthy c"
  then show "nextIterationCount st = c"
    by (simp add: nextIterationCount_locals opt_or_def js_or_def)
next
  assume a: "BenchmarkState.cycles st \<noteq> 0 \<and>
    (\<exists>g. elapsedCycleGrossTime st = Fin g \<and> 0 < g) \<and>
    (\<exists>i. BenchmarkState.iterationCount st = Fin i \<and> 0 \<le> i)"
  then obtain g i where g: "elapsedCycleGrossTime st = Fin g" "0 < g"
    and i: "BenchmarkState.iterationCount st = Fin i" "0 \<le> i"
    by blast
  show "nextIterationCount st = NaN \<or> nextIterationCount st = PInf \<or>
      (\<exists>k. 0 \<le> k \<and> nextIterationCount st = Fin (real_of_int k))"
  proof (cases "continues st")
    case False
    with a have "nextIterationCount st = Fin (real_of_int 0)"
      by (auto simp: nextIterationCount_locals continues_def)
    then show ?thesis by blast
  next
    case True
    note n = nextIterationCount_continues [OF True]
    from targetNetTime_not_negative [OF True]
    consider "targetNetTime st = NaN" | t where "targetNetTime st = Fin t" "0 \<le> t"
      by blast
    then show ?thesis
    proof cases
      case 1
      then show ?thesis by (simp add: n)
    next
      case t: 2
      show ?thesis
      proof (cases "i = 0")
        case True
        with g have "grossMeanTimePerIteration st = PInf"
          by (simp add: grossMeanTimePerIteration_def i(1))
        then have "nextIterationCount st = Fin (real_of_int 0)"
          by (simp add: n t(1))
        then show ?thesis by blast
      next
        case False
        with i(2) have ipos: "0 < i" by simp
        have gm: "grossMeanTimePerIteration st = Fin (g / i)" "0 < g / i"
          using g i(1) ipos by (simp_all add: grossMeanTimePerIteration_def)
        have "0 \<le> t / (g / i)"
          using t(2) gm(2) by (intro divide_nonneg_pos)
        then have "0 \<le> \<lfloor>t / (g / i) + 1 / 2\<rfloor>" by simp
        moreover have "nextIterationCount st = Fin (real_of_int \<lfloor>t / (g / i) + 1 / 2\<rfloor>)"
          using gm g ipos by (simp add: n t(1))
        ultimately show ?thesis by blast
      qed
    qed
  qed
qed

lemma getTimings_single_Fin:
  "getTimings [Fin x] = \<lparr> sampleCount = 1, Timings.meanTime = Fin x,
      Timings.relativeMarginOfError = PInf \<rparr>"
proof -
  have "getMean [Fin x] = Fin x" by (simp add: getMean_def getSum_def)
  moreover have "js_or (jdiv (getTimings_moe [Fin x]) (Fin x)) PInf = PInf"
    using getTimings_moe_single [of "Fin x"] js_or_zero_moe [of "Fin x"]
    by (auto simp: js_or_NaN)
  ultimately show ?thesis by (simp add: getTimings_def Let_def)
qed

text \<open>The first call with and without an initial count, and a state after one cycle.\<close>

theorem nextIterationCount_first_and_sign_witness:
  "nextIterationCount (initial_state example_config 0) = Fin 1 \<and>
   nextIterationCount (initial_state example_config_3s 0) = Fin 10 \<and>
   (nextIterationCount example_state_3s = NaN \<or> nextIterationCount example_state_3s = PInf \<or>
    (\<exists>k. 0 \<le> k \<and> nextIterationCount example_state_3s = Fin (real_of_int k)))"
proof (intro conjI)
  show "nextIterationCount (initial_state example_config 0) = Fin 1"
    using nextIterationCount_first_and_sign [of "initial_state example_config 0"]
    by (simp add: initial_state_def example_config_def opt_or_def)
next
  show "nextIterationCount (initial_state example_config_3s 0) = Fin 10"
    using nextIterationCount_first_and_sign [of "initial_state example_config_3s 0"]
    by (simp add: initial_state_def example_config_3s_def example_config_def opt_or_def js_or_def)
next
  have "BenchmarkState.cycles example_state_3s \<noteq> 0 \<and>
    (\<exists>g. elapsedCycleGrossTime example_state_3s = Fin g \<and> 0 < g) \<and>
    (\<exists>i. BenchmarkState.iterationCount example_state_3s = Fin i \<and> 0 \<le> i)"
    by (simp add: example_state_3s_def)
  with nextIterationCount_first_and_sign [of example_state_3s]
  show "nextIterationCount example_state_3s = NaN \<or> nextIterationCount example_state_3s = PInf \<or>
      (\<exists>k. 0 \<le> k \<and> nextIterationCount example_state_3s = Fin (real_of_int k))"
    by blast
qed

text \<open>
  A state with non-negative counters and elapsed times, the gross cycle time being 0,
  for which the scheduler returns \<open>Infinity\<close>; and a first call that returns the
  configured initial count -3.
\<close>

theorem nextIterationCount_first_and_sign_counterexample:
  "BenchmarkState.cycles example_state_no_time = 1 \<and>
   BenchmarkState.elapsedTime example_state_no_time = Fin 0 \<and>
   elapsedTimeForInitialSetUp example_state_no_time = Fin 0 \<and>
   elapsedCycleGrossTime example_state_no_time = Fin 0 \<and>
   BenchmarkState.iterationCount example_state_no_time = Fin 1 \<and>
   nextIterationCount example_state_no_time = PInf \<and>
   nextIterationCount
     (initial_state (example_config \<lparr> initialCount := Some (Fin (- 3)) \<rparr>) 0) = Fin (- 3)"
  by (simp add: nextIterationCount_def Let_def example_state_no_time_def initial_state_def
      example_config_def getTimings_single_Fin INCLUDE_INITIAL_SETUP_IN_MAX_TIME_def
      DEFAULT_MAX_TIME_def TARGET_RELATIVE_MARGIN_OF_ERROR_def TARGET_CYCLE_TIME_def
      INITIAL_ITERATION_COUNT_def opt_or_def js_or_def jsub_def)

text \<open>
  C8. For a state past the first cycle on which the scheduler does not stop, the
  iteration count is the rounded quotient of the target net time by the gross mean
  time per iteration, and the target net time is the minimum of the remaining net time
  divided by the error factor and the fixed 3 seconds of \<^verbatim>\<open>TARGET_CYCLE_TIME\<close> (a tenth
  of the default budget of 30 seconds, whatever budget the configuration sets); the
  error factor is the minimum of the relative margin of error plus 1 and 10.
\<close>

theorem targetNetTime_fixed_cap:
  assumes "continues st"
  shows "nextIterationCount st =
           jround (jdiv (targetNetTime st) (grossMeanTimePerIteration st)) \<and>
         targetNetTime st = jmin (jdiv (remainingNetTime st) (errorFactor st)) (Fin 3) \<and>
         remainingNetTime st = jsub (remainingTime st) (meanSetUpTime st) \<and>
         errorFactor st =
           jmin (jadd (Timings.relativeMarginOfError (timings st)) (Fin 1)) (Fin 10)"
  using assms
  by (simp add: nextIterationCount_continues targetNetTime_def TARGET_CYCLE_TIME_eq
      remainingNetTime_def errorFactor_def)

lemma continues_example_state_3s: "continues example_state_3s"
  by (simp add: continues_def example_state_3s_def example_config_3s_def example_config_def
      remainingTime_def meanSetUpTime_def opt_or_def js_or_def jsub_def
      TARGET_RELATIVE_MARGIN_OF_ERROR_def)

lemma targetNetTime_example_state_3s: "targetNetTime example_state_3s = Fin (4 / 3)"
  by (simp add: targetNetTime_def remainingNetTime_def errorFactor_def
      example_state_3s_def example_config_3s_def example_config_def
      remainingTime_def meanSetUpTime_def opt_or_def js_or_def jsub_def TARGET_CYCLE_TIME_eq)

text \<open>With a budget of 3 seconds and 2 seconds left, the next cycle has 13 iterations.\<close>

theorem targetNetTime_fixed_cap_witness:
  "continues example_state_3s \<and> targetNetTime example_state_3s = Fin (4 / 3) \<and>
   nextIterationCount example_state_3s = Fin 13"
proof -
  have n: "nextIterationCount example_state_3s =
      jround (jdiv (targetNetTime example_state_3s) (grossMeanTimePerIteration example_state_3s))"
    using targetNetTime_fixed_cap [OF continues_example_state_3s] by (rule conjunct1)
  have gm: "grossMeanTimePerIteration example_state_3s = Fin (1 / 10)"
    by (simp add: grossMeanTimePerIteration_def example_state_3s_def)
  have "\<lfloor>(83 :: real) / 6\<rfloor> = 13" by linarith
  then have "nextIterationCount example_state_3s = Fin 13"
    by (simp add: n gm targetNetTime_example_state_3s)
  then show ?thesis
    by (simp add: continues_example_state_3s targetNetTime_example_state_3s)
qed

text \<open>
  The same state: the budget of the configuration is 3 seconds, a tenth of it is 0.3
  seconds, and the target net time is 4/3 seconds.
\<close>

theorem targetNetTime_fixed_cap_counterexample:
  "continues example_state_3s \<and>
   opt_or (maxTime (config example_state_3s)) DEFAULT_MAX_TIME = Fin 3 \<and>
   targetNetTime example_state_3s = Fin (4 / 3) \<and>
   targetNetTime_spec example_state_3s = Fin (3 / 10)"
  by (simp add: continues_example_state_3s targetNetTime_example_state_3s)
    (simp add: targetNetTime_spec_def remainingNetTime_def errorFactor_def
      example_state_3s_def example_config_3s_def example_config_def
      remainingTime_def meanSetUpTime_def opt_or_def js_or_def jsub_def)








section \<open>Properties of a cycle and of the run\<close>

lemma upt_add_Suc: "[k..<k + Suc m] = k # [Suc k..<Suc k + m]"
  by (simp add: upt_conv_Cons del: upt_Suc)

lemma detailed_loop_result:
  "detailed_loop f n i k ts = Inr (ts', k') \<Longrightarrow> i \<le> n \<Longrightarrow>
     k' = k + (n - i) \<and> ts' = ts @ map (\<lambda>j. projr (f j)) [k..<k + (n - i)]"
proof (induction f n i k ts rule: detailed_loop.induct)
  case (1 f n i k ts)
  show ?case
  proof (cases "i < n")
    case False
    with "1.prems" show ?thesis by (simp add: detailed_loop.simps [of f n i])
  next
    case True
    with "1.prems" obtain d where d: "f k = Inr d"
      and rec: "detailed_loop f n (Suc i) (Suc k) (ts @ [d]) = Inr (ts', k')"
      by (cases "f k") (simp_all add: detailed_loop.simps [of f n i])
    from True obtain m where m: "n - i = Suc m" "n - Suc i = m"
      by (cases "n - i") simp_all
    from "1.IH" [OF True d rec] True
    have "k' = Suc k + m"
      and "ts' = (ts @ [d]) @ map (\<lambda>j. projr (f j)) [Suc k..<Suc k + m]"
      by (simp_all add: m del: upt_Suc)
    then show ?thesis
      using d unfolding m upt_add_Suc by simp
  qed
qed

lemma detailed_loop_returns:
  "\<forall>j<n - i. \<not> isl (f (k + j)) \<Longrightarrow> \<exists>r. detailed_loop f n i k ts = Inr r"
proof (induction f n i k ts rule: detailed_loop.induct)
  case (1 f n i k ts)
  show ?case
  proof (cases "i < n")
    case False
    then show ?thesis by (simp add: detailed_loop.simps [of f n i])
  next
    case True
    with "1.prems" have "\<not> isl (f (k + 0))" by (intro "1.prems" [rule_format]) simp
    then obtain d where d: "f k = Inr d" by (cases "f k") simp_all
    have "\<forall>j<n - Suc i. \<not> isl (f (Suc k + j))"
    proof (intro allI impI)
      fix j assume "j < n - Suc i"
      then have "Suc j < n - i" by simp
      with "1.prems" have "\<not> isl (f (k + Suc j))" by blast
      then show "\<not> isl (f (Suc k + j))" by simp
    qed
    from "1.IH" [OF True d this] obtain r
      where "detailed_loop f n (Suc i) (Suc k) (ts @ [d]) = Inr r" by blast
    with True d show ?thesis by (simp add: detailed_loop.simps [of f n i])
  qed
qed

lemma cycle_loop_returns:
  "\<forall>j<nat \<lceil>c\<rceil> - i. \<not> isl (f (k + j)) \<Longrightarrow>
     cycle_loop f (Fin c) i k netTime =
       Some (Inr (foldl (\<lambda>a b. jadd a b) netTime
                    (map (\<lambda>j. projr (f j)) [k..<k + (nat \<lceil>c\<rceil> - i)]),
                  k + (nat \<lceil>c\<rceil> - i)))"
proof (induction "nat \<lceil>c\<rceil> - i" arbitrary: i k netTime)
  case 0
  then have "\<not> real i < c" by linarith
  with 0 show ?case
    by (subst cycle_loop.simps) simp
next
  case (Suc m)
  then have lt: "real i < c" by linarith
  from Suc.hyps(2) have m: "m = nat \<lceil>c\<rceil> - Suc i" by simp
  from Suc.prems Suc.hyps(2) have "\<not> isl (f (k + 0))" by (intro Suc.prems [rule_format]) simp
  then obtain d where d: "f k = Inr d" by (cases "f k") simp_all
  have "\<forall>j<nat \<lceil>c\<rceil> - Suc i. \<not> isl (f (Suc k + j))"
  proof (intro allI impI)
    fix j assume "j < nat \<lceil>c\<rceil> - Suc i"
    then have "Suc j < nat \<lceil>c\<rceil> - i" by simp
    with Suc.prems have "\<not> isl (f (k + Suc j))" by blast
    then show "\<not> isl (f (Suc k + j))" by simp
  qed
  from Suc.hyps(1) [OF m this, of "jadd netTime d"]
  have "cycle_loop f (Fin c) (Suc i) (Suc k) (jadd netTime d) =
      Some (Inr (foldl (\<lambda>a b. jadd a b) (jadd netTime d)
                   (map (\<lambda>j. projr (f j)) [Suc k..<Suc k + m]),
                 Suc k + m))"
    unfolding m .
  then show ?case
    using lt d unfolding Suc.hyps(2) [symmetric] upt_add_Suc
    by (subst cycle_loop.simps) simp
qed


lemma array_length_Some: "array_length count = Some n \<Longrightarrow> count = Fin (real n)"
  by (cases count) (auto split: if_splits)

lemma array_length_nat: "n < 2 ^ 32 \<Longrightarrow> array_length (Fin (real n)) = Some n"
proof -
  assume "n < 2 ^ 32"
  then have "real n < real (2 ^ 32)" by (simp only: of_nat_less_iff)
  then show ?thesis by simp
qed

lemma cycle_result:
  "cycle cfg count w = Some (Inr ((ts, netTime), w')) \<Longrightarrow> ts = [jdiv netTime count]"
  by (auto simp: cycle_def split: option.splits sum.splits prod.splits)

lemma cycleSync_result:
  "cycleSync cfg count w = Some (Inr ((ts, netTime), w')) \<Longrightarrow> ts = [jdiv netTime count]"
  by (auto simp: cycleSync_def split: option.splits sum.splits prod.splits)

lemma cycleDetailed_result:
  assumes "cycleDetailed cfg count w = Some (Inr ((ts, netTime), w'))"
  shows "\<exists>n. count = Fin (real n) \<and> length ts = n \<and>
           ts = map (\<lambda>j. projr (fn cfg j)) [calls w..<calls w + n] \<and> netTime = getSum ts"
proof -
  from assms obtain n k where n: "array_length count = Some n"
    and l: "detailed_loop (fn cfg) n 0 (calls w) [] = Inr (ts, k)"
    and s: "netTime = getSum ts"
    by (auto simp: cycleDetailed_def split: option.splits sum.splits prod.splits)
  from detailed_loop_result [OF l] have "ts = map (\<lambda>j. projr (fn cfg j)) [calls w..<calls w + n]"
    by simp
  with array_length_Some [OF n] s show ?thesis by auto
qed

lemma benchmark_step_Next:
  assumes "benchmark_step cfg clock startTime v = Some (Inr (Next v'))"
  shows "\<exists>ts netTime w2.
           cycleFn cfg (nextIterationCount (state v)) (nextIterationCount (state v))
             (snd (time clock (world v))) = Some (Inr ((ts, netTime), w2)) \<and>
           vars.samples v' = vars.samples v @ ts \<and>
           elapsedNetTime (state v') = jadd (elapsedNetTime (state v)) netTime"
  using assms
  by (auto simp: benchmark_step_def Let_def
      split: if_splits option.splits sum.splits prod.splits)

text \<open>
  C10. For every cycle the runner executes, that is every pass of the loop body that
  ends with new variables: when the configuration is not synchronous and the iteration
  count is at most 10000, the iteration count is a natural number \<open>n\<close> and exactly \<open>n\<close>
  samples are appended, the durations of the \<open>n\<close> invocations of the cycle in order;
  otherwise exactly one sample is appended, the net time of the cycle divided by the
  iteration count.
\<close>

theorem samples_per_cycle:
  assumes "benchmark_step cfg clock startTime v = Some (Inr (Next v'))"
  shows "(isSync cfg \<noteq> Some True \<and> \<not> jlt (Fin 10000) (nextIterationCount (state v)) \<longrightarrow>
            (\<exists>n. nextIterationCount (state v) = Fin (real n) \<and>
                 length (vars.samples v') = length (vars.samples v) + n \<and>
                 vars.samples v' =
                   vars.samples v @
                   map (\<lambda>j. projr (fn cfg j))
                     [calls (world v)..<calls (world v) + n])) \<and>
         (isSync cfg = Some True \<or> jlt (Fin 10000) (nextIterationCount (state v)) \<longrightarrow>
            (\<exists>netTime.
                 elapsedNetTime (state v') = jadd (elapsedNetTime (state v)) netTime \<and>
                 vars.samples v' =
                   vars.samples v @ [jdiv netTime (nextIterationCount (state v))]))"
proof -
  let ?count = "nextIterationCount (state v)"
  from benchmark_step_Next [OF assms] obtain ts netTime w2
    where c: "cycleFn cfg ?count ?count (snd (time clock (world v))) =
                Some (Inr ((ts, netTime), w2))"
      and s: "vars.samples v' = vars.samples v @ ts"
      and t: "elapsedNetTime (state v') = jadd (elapsedNetTime (state v)) netTime"
    by blast
  show ?thesis
  proof (intro conjI impI)
    assume "isSync cfg \<noteq> Some True \<and> \<not> jlt (Fin 10000) ?count"
    with c have "cycleDetailed cfg ?count (snd (time clock (world v))) =
        Some (Inr ((ts, netTime), w2))"
      by (simp add: cycleFn_def)
    from cycleDetailed_result [OF this] s
    show "\<exists>n. ?count = Fin (real n) \<and>
            length (vars.samples v') = length (vars.samples v) + n \<and>
            vars.samples v' =
              vars.samples v @ map (\<lambda>j. projr (fn cfg j)) [calls (world v)..<calls (world v) + n]"
      by (auto simp: time_def)
  next
    assume "isSync cfg = Some True \<or> jlt (Fin 10000) ?count"
    with c have "cycleSync cfg ?count (snd (time clock (world v))) =
          Some (Inr ((ts, netTime), w2)) \<or>
        cycle cfg ?count (snd (time clock (world v))) = Some (Inr ((ts, netTime), w2))"
      by (auto simp: cycleFn_def split: if_splits)
    then have "ts = [jdiv netTime ?count]"
      using cycle_result cycleSync_result by blast
    with s t show "\<exists>netTime.
        elapsedNetTime (state v') = jadd (elapsedNetTime (state v)) netTime \<and>
        vars.samples v' = vars.samples v @ [jdiv netTime ?count]"
      by blast
  qed
qed


lemma cycleDetailed_returns:
  assumes bf: "run_before cfg (Fin (real n)) = None"
    and n: "n < 2 ^ 32"
    and ok: "\<forall>j<n. \<not> isl (fn cfg (calls w + j))"
  shows "cycleDetailed cfg (Fin (real n)) w =
     Some (Inr ((map (\<lambda>j. projr (fn cfg j)) [calls w..<calls w + n],
                 getSum (map (\<lambda>j. projr (fn cfg j)) [calls w..<calls w + n])),
                w\<lparr> calls := calls w + n \<rparr>))"
proof -
  from ok have "\<forall>j<n - 0. \<not> isl (fn cfg (calls w + j))" by simp
  from detailed_loop_returns [OF this, of "[]"] obtain ts k
    where l: "detailed_loop (fn cfg) n 0 (calls w) [] = Inr (ts, k)"
    by (metis surj_pair)
  from detailed_loop_result [OF l]
  have "k = calls w + n" "ts = map (\<lambda>j. projr (fn cfg j)) [calls w..<calls w + n]"
    by simp_all
  with l bf array_length_nat [OF n] show ?thesis
    by (simp add: cycleDetailed_def del: array_length.simps)
qed

lemma cycle_loop_nat:
  assumes "\<forall>j<n. \<not> isl (f (k + j))"
  shows "cycle_loop f (Fin (real n)) 0 k (Fin 0) =
     Some (Inr (getSum (map (\<lambda>j. projr (f j)) [k..<k + n]), k + n))"
proof -
  have c: "nat \<lceil>real n\<rceil> - 0 = n" by simp
  from assms have "\<forall>j<nat \<lceil>real n\<rceil> - 0. \<not> isl (f (k + j))" by simp
  from cycle_loop_returns [OF this, of "Fin 0"] show ?thesis
    unfolding c getSum_def .
qed

lemma cycle_returns:
  assumes bf: "run_before cfg (Fin (real n)) = None"
    and ok: "\<forall>j<n. \<not> isl (fn cfg (calls w + j))"
  shows "cycle cfg (Fin (real n)) w =
     Some (Inr (([jdiv (getSum (map (\<lambda>j. projr (fn cfg j)) [calls w..<calls w + n]))
                       (Fin (real n))],
                 getSum (map (\<lambda>j. projr (fn cfg j)) [calls w..<calls w + n])),
                w\<lparr> calls := calls w + n \<rparr>))"
  by (simp add: cycle_def bf cycle_loop_nat [OF ok])

lemma cycleSync_returns:
  assumes bf: "run_before cfg (Fin (real n)) = None"
    and ok: "\<forall>j<n. \<not> isl (fn cfg (calls w + j))"
  shows "cycleSync cfg (Fin (real n)) w =
     Some (Inr (([jdiv (getSum (map (\<lambda>j. projr (fn cfg j)) [calls w..<calls w + n]))
                       (Fin (real n))],
                 getSum (map (\<lambda>j. projr (fn cfg j)) [calls w..<calls w + n])),
                w\<lparr> calls := calls w + n \<rparr>))"
  by (simp add: cycleSync_def bf cycle_loop_nat [OF ok])

lemma cycleFn_returns:
  assumes bf: "run_before cfg (Fin (real n)) = None"
    and ok: "\<forall>j<n. \<not> isl (fn cfg (calls w + j))"
  shows "cycleFn cfg (Fin (real n)) (Fin (real n)) w =
     Some (Inr ((if isSync cfg = Some True \<or> 10000 < n
                 then [jdiv (getSum (map (\<lambda>j. projr (fn cfg j)) [calls w..<calls w + n]))
                            (Fin (real n))]
                 else map (\<lambda>j. projr (fn cfg j)) [calls w..<calls w + n],
                 getSum (map (\<lambda>j. projr (fn cfg j)) [calls w..<calls w + n])),
                w\<lparr> calls := calls w + n \<rparr>))"
proof (cases "isSync cfg = Some True")
  case True
  then show ?thesis by (simp add: cycleFn_def cycleSync_returns [OF bf ok])
next
  case False
  show ?thesis
  proof (cases "10000 < n")
    case True
    with False show ?thesis by (simp add: cycleFn_def cycle_returns [OF bf ok])
  next
    case b: False
    then have "n < 2 ^ 32" by simp
    from cycleDetailed_returns [OF bf this ok] False b show ?thesis
      by (simp add: cycleFn_def)
  qed
qed


lemma benchmark_step_returns:
  assumes n: "nextIterationCount (state v) = Fin (real n)" "0 < n"
    and bf: "run_before cfg (Fin (real n)) = None"
    and ok: "\<forall>j<n. \<not> isl (fn cfg (calls (world v) + j))"
    and t: "ticks (world v) = t"
    and ts: "ts = (if isSync cfg = Some True \<or> 10000 < n
                   then [jdiv (getSum (map (\<lambda>j. projr (fn cfg j))
                                 [calls (world v)..<calls (world v) + n])) (Fin (real n))]
                   else map (\<lambda>j. projr (fn cfg j)) [calls (world v)..<calls (world v) + n])"
  shows "\<exists>d. benchmark_step cfg clock startTime v =
     Some (Inr (Next
       \<lparr> vars.samples = vars.samples v @ ts,
         cycleDetails = vars.cycleDetails v @ [d],
         state =
           \<lparr> timings = getTimings (vars.samples v @ ts),
             BenchmarkState.cycles = Suc (BenchmarkState.cycles (state v)),
             BenchmarkState.iterationCount =
               jadd (BenchmarkState.iterationCount (state v)) (Fin (real n)),
             BenchmarkState.elapsedTime = jsub (Fin (clock (t + 2))) startTime,
             elapsedNetTime =
               jadd (elapsedNetTime (state v))
                 (getSum (map (\<lambda>j. projr (fn cfg j))
                    [calls (world v)..<calls (world v) + n])),
             elapsedTimeForInitialSetUp = elapsedTimeForInitialSetUp (state v),
             elapsedCycleGrossTime =
               jadd (elapsedCycleGrossTime (state v)) (Fin (clock (t + 1) - clock t)),
             config = config (state v) \<rparr>,
         world = \<lparr> ticks = t + 3, calls = calls (world v) + n \<rparr> \<rparr>))"
proof -
  let ?w = "world v\<lparr> ticks := Suc t \<rparr>"
  from ok have "\<forall>j<n. \<not> isl (fn cfg (calls ?w + j))" by simp
  from cycleFn_returns [OF bf this]
  have "cycleFn cfg (Fin (real n)) (Fin (real n)) ?w =
      Some (Inr ((ts, getSum (map (\<lambda>j. projr (fn cfg j))
                    [calls (world v)..<calls (world v) + n])),
                 ?w\<lparr> calls := calls (world v) + n \<rparr>))"
    unfolding ts by simp
  then show ?thesis
    using n(2) t
    by (simp add: benchmark_step_def n(1) time_def Let_def jsub_def)
qed











lemma benchmark_step_cycle:
  assumes n: "nextIterationCount (state v) = Fin (real n)" "0 < n"
    and bf: "run_before cfg (Fin (real n)) = None"
    and ok: "\<forall>j<n. \<not> isl (fn cfg (calls (world v) + j))"
    and t: "ticks (world v) = t"
    and ts: "ts = (if isSync cfg = Some True \<or> 10000 < n
                   then [jdiv (getSum (map (\<lambda>j. projr (fn cfg j))
                                 [calls (world v)..<calls (world v) + n])) (Fin (real n))]
                   else map (\<lambda>j. projr (fn cfg j)) [calls (world v)..<calls (world v) + n])"
  shows "\<exists>v'. benchmark_step cfg clock startTime v = Some (Inr (Next v')) \<and>
     vars.samples v' = vars.samples v @ ts \<and>
     length (vars.cycleDetails v') = Suc (length (vars.cycleDetails v)) \<and>
     state v' =
       \<lparr> timings = getTimings (vars.samples v @ ts),
         BenchmarkState.cycles = Suc (BenchmarkState.cycles (state v)),
         BenchmarkState.iterationCount =
           jadd (BenchmarkState.iterationCount (state v)) (Fin (real n)),
         BenchmarkState.elapsedTime = jsub (Fin (clock (t + 2))) startTime,
         elapsedNetTime =
           jadd (elapsedNetTime (state v))
             (getSum (map (\<lambda>j. projr (fn cfg j))
                [calls (world v)..<calls (world v) + n])),
         elapsedTimeForInitialSetUp = elapsedTimeForInitialSetUp (state v),
         elapsedCycleGrossTime =
           jadd (elapsedCycleGrossTime (state v)) (Fin (clock (t + 1) - clock t)),
         config = config (state v) \<rparr> \<and>
     world v' = \<lparr> ticks = t + 3, calls = calls (world v) + n \<rparr>"
proof -
  from benchmark_step_returns [OF assms, of clock startTime] obtain d
    where "benchmark_step cfg clock startTime v =
     Some (Inr (Next
       \<lparr> vars.samples = vars.samples v @ ts,
         cycleDetails = vars.cycleDetails v @ [d],
         state =
           \<lparr> timings = getTimings (vars.samples v @ ts),
             BenchmarkState.cycles = Suc (BenchmarkState.cycles (state v)),
             BenchmarkState.iterationCount =
               jadd (BenchmarkState.iterationCount (state v)) (Fin (real n)),
             BenchmarkState.elapsedTime = jsub (Fin (clock (t + 2))) startTime,
             elapsedNetTime =
               jadd (elapsedNetTime (state v))
                 (getSum (map (\<lambda>j. projr (fn cfg j))
                    [calls (world v)..<calls (world v) + n])),
             elapsedTimeForInitialSetUp = elapsedTimeForInitialSetUp (state v),
             elapsedCycleGrossTime =
               jadd (elapsedCycleGrossTime (state v)) (Fin (clock (t + 1) - clock t)),
             config = config (state v) \<rparr>,
         world = \<lparr> ticks = t + 3, calls = calls (world v) + n \<rparr> \<rparr>))"
    (is "_ = Some (Inr (Next ?R))")
    by blast
  then show ?thesis
    by (intro exI [of _ ?R]) simp
qed

lemma upt_0_2: "[0..<2] = [0, Suc 0]"
  by (simp add: upt_rec [of 0] upt_rec [of "Suc 0"] numeral_2_eq_2)

lemma example_config_2_step:
  assumes cfg: "cfg = example_config_2 \<lparr> isSync := s \<rparr>"
  shows "\<exists>v'. benchmark_step cfg example_clock_constant (Fin 0)
           \<lparr> vars.samples = [], cycleDetails = [], state = initial_state cfg 0,
             world = \<lparr> ticks = 2, calls = 0 \<rparr> \<rparr> = Some (Inr (Next v')) \<and>
           elapsedNetTime (state v') = Fin 2"
proof -
  let ?v0 = "\<lparr> vars.samples = [], cycleDetails = [], state = initial_state cfg 0,
               world = \<lparr> ticks = 2, calls = 0 \<rparr> \<rparr>"
  have h: "nextIterationCount (state ?v0) = Fin (real 2)" "(0 :: nat) < 2"
    "run_before cfg (Fin (real 2)) = None"
    "\<forall>j<2. \<not> isl (fn cfg (calls (world ?v0) + j))"
    "ticks (world ?v0) = 2"
    by (simp_all add: cfg nextIterationCount_locals initial_state_def example_config_2_def
        example_config_def opt_or_def js_or_def run_before_def)
  have s: "getSum (map (\<lambda>j. projr (fn cfg j)) [0..<2]) = Fin 2"
    by (simp add: cfg example_config_2_def example_config_def getSum_def upt_0_2)
  from benchmark_step_cycle [OF h refl, of example_clock_constant "Fin 0"]
  obtain v' where "benchmark_step cfg example_clock_constant (Fin 0) ?v0 = Some (Inr (Next v'))"
    and "elapsedNetTime (state v') =
      jadd (elapsedNetTime (state ?v0))
        (getSum (map (\<lambda>j. projr (fn cfg j)) [calls (world ?v0)..<calls (world ?v0) + 2]))"
    by auto
  then show ?thesis
    using s by (intro exI [of _ v']) (simp add: initial_state_def jadd_zero_left upt_0_2)
qed


text \<open>
  A first cycle of 2 iterations of one second: an asynchronous run records the samples
  1 and 1, a synchronous run the one sample 2 / 2.
\<close>

theorem samples_per_cycle_witness:
  "(\<exists>v'. benchmark_step example_config_2 example_clock_constant (Fin 0)
           \<lparr> vars.samples = [], cycleDetails = [], state = initial_state example_config_2 0,
             world = \<lparr> ticks = 2, calls = 0 \<rparr> \<rparr> = Some (Inr (Next v')) \<and>
         vars.samples v' = [Fin 1, Fin 1]) \<and>
   (\<exists>v'. benchmark_step (example_config_2 \<lparr> isSync := Some True \<rparr>) example_clock_constant (Fin 0)
           \<lparr> vars.samples = [], cycleDetails = [],
             state = initial_state (example_config_2 \<lparr> isSync := Some True \<rparr>) 0,
             world = \<lparr> ticks = 2, calls = 0 \<rparr> \<rparr> = Some (Inr (Next v')) \<and>
         vars.samples v' = [Fin 1])"
proof (intro conjI)
  let ?cfg = "example_config_2"
  let ?v0 = "\<lparr> vars.samples = [], cycleDetails = [], state = initial_state ?cfg 0,
               world = \<lparr> ticks = 2, calls = 0 \<rparr> \<rparr>"
  have c: "nextIterationCount (state ?v0) = Fin 2" "isSync ?cfg = None"
    by (simp_all add: nextIterationCount_locals initial_state_def example_config_2_def
        example_config_def opt_or_def js_or_def)
  from example_config_2_step [of ?cfg None] obtain v'
    where step: "benchmark_step ?cfg example_clock_constant (Fin 0) ?v0 = Some (Inr (Next v'))"
    by (auto simp: example_config_2_def example_config_def)
  from samples_per_cycle [OF step] c obtain n :: nat
    where "Fin 2 = Fin (real n)" "vars.samples v' = map (\<lambda>j. projr (fn ?cfg j)) [0..<n]"
    by auto
  then have "n = 2" "vars.samples v' = map (\<lambda>j. projr (fn ?cfg j)) [0..<n]"
    by simp_all
  then have "vars.samples v' = [Fin 1, Fin 1]"
    by (simp add: example_config_2_def example_config_def upt_0_2)
  with step show "\<exists>v'. benchmark_step ?cfg example_clock_constant (Fin 0) ?v0 =
      Some (Inr (Next v')) \<and> vars.samples v' = [Fin 1, Fin 1]"
    by blast
next
  let ?cfg = "example_config_2 \<lparr> isSync := Some True \<rparr>"
  let ?v0 = "\<lparr> vars.samples = [], cycleDetails = [], state = initial_state ?cfg 0,
               world = \<lparr> ticks = 2, calls = 0 \<rparr> \<rparr>"
  have c: "nextIterationCount (state ?v0) = Fin 2" "isSync ?cfg = Some True"
    "elapsedNetTime (state ?v0) = Fin 0"
    by (simp_all add: nextIterationCount_locals initial_state_def example_config_2_def
        example_config_def opt_or_def js_or_def)
  from example_config_2_step [of ?cfg "Some True"] obtain v'
    where step: "benchmark_step ?cfg example_clock_constant (Fin 0) ?v0 = Some (Inr (Next v'))"
      and net: "elapsedNetTime (state v') = Fin 2"
    by (auto simp: example_config_2_def example_config_def)
  from samples_per_cycle [OF step] c(2) obtain netTime
    where "elapsedNetTime (state v') = jadd (elapsedNetTime (state ?v0)) netTime"
      "vars.samples v' = vars.samples ?v0 @ [jdiv netTime (nextIterationCount (state ?v0))]"
    by blast
  with net have "vars.samples v' = [Fin 1]"
    unfolding c by (simp add: jadd_zero_left)
  with step show "\<exists>v'. benchmark_step ?cfg example_clock_constant (Fin 0) ?v0 =
      Some (Inr (Next v')) \<and> vars.samples v' = [Fin 1]"
    by blast
qed


















end
